theory Spec2Isabelle
  imports Main "HOL-Library.Word"
begin

section \<open>cbz.page: the page model and its content setter\<close>

text \<open>
  The module \<^verbatim>\<open>cbz/page.py\<close> defines the class \<^verbatim>\<open>PageInfo\<close>. Its property
  setter \<^verbatim>\<open>content\<close> derives the suffix, the pixel dimensions and the byte size of a
  page from the bytes assigned to it. The setter calls three libraries
  (\<^verbatim>\<open>magic.from_buffer\<close>, \<^verbatim>\<open>mimetypes.guess_extension\<close>, \<^verbatim>\<open>imagesize.get\<close>) and reads
  the constant \<^verbatim>\<open>IMAGE_FORMAT\<close> of \<^verbatim>\<open>cbz.constants\<close>. None of the four is part of
  the module, so the model takes them as the fields of an environment and every
  theorem holds for every environment.
\<close>

subsection \<open>Data\<close>

type_synonym byte = "8 word"
type_synonym bytes = "byte list"
type_synonym path = string

text \<open>The exceptions that can leave the module.\<close>

datatype error =
    AssertionError string
  | ValueError string
  | AttributeError
  | FileNotFoundError
  | OSError
  | MagicException
  | ImagesizeError
  | BinasciiError

text \<open>
  A value returned by \<^verbatim>\<open>imagesize.get\<close> for a width or a height. The setter only asks
  whether it is an \<^verbatim>\<open>int\<close>; every other Python value is \<open>PyOther\<close>.
\<close>

datatype pyval = PyInt int | PyOther

fun isinstance_int :: "pyval \<Rightarrow> bool" where
  "isinstance_int (PyInt _) = True"
| "isinstance_int PyOther = False"

fun int_of :: "pyval \<Rightarrow> int" where
  "int_of (PyInt i) = i"
| "int_of PyOther = 0"

text \<open>
  The libraries and the allow-list. A library call either raises (\<open>Inl\<close>) or returns
  (\<open>Inr\<close>); \<^verbatim>\<open>guess_extension\<close> returns \<^verbatim>\<open>None\<close> or a string and does not raise.
\<close>

record env =
  magic_from_buffer :: "bytes \<Rightarrow> error + string"
  guess_extension :: "string \<Rightarrow> string option"
  imagesize_get :: "bytes \<Rightarrow> error + (pyval \<times> pyval)"
  IMAGE_FORMAT :: "string list"

text \<open>
  The attributes of an instance. \<open>content\<close> is the private attribute
  \<^verbatim>\<open>__content\<close>, \<open>None\<close> until the setter has assigned it once. \<open>model_attrs\<close> stands
  for the attributes that \<^verbatim>\<open>PageModel.__init__\<close> sets from the keyword arguments and
  that this module never touches.
\<close>

record PageInfo =
  suffix :: string
  image_width :: int
  image_height :: int
  image_size :: int
  content :: "bytes option"
  model_attrs :: "(string \<times> string) list"

subsection \<open>The setter\<close>

text \<open>
  \<^verbatim>\<open>guess_extension(filetype) or ".bin"\<close>: Python's \<^verbatim>\<open>or\<close> takes the right operand
  when the left one is \<^verbatim>\<open>None\<close> or the empty string.
\<close>

definition derive_suffix :: "env \<Rightarrow> string \<Rightarrow> string" where
  "derive_suffix e filetype =
     (case guess_extension e filetype of
        None \<Rightarrow> ''.bin''
      | Some x \<Rightarrow> (if x = [] then ''.bin'' else x))"

text \<open>
  Lines 61 to 62: when either value is not an \<^verbatim>\<open>int\<close>, the pair becomes \<^verbatim>\<open>0, 0\<close>.
\<close>

definition checked_dims :: "pyval \<times> pyval \<Rightarrow> int \<times> int" where
  "checked_dims wh =
     (if \<not> isinstance_int (fst wh) \<or> \<not> isinstance_int (snd wh) then (0, 0)
      else (int_of (fst wh), int_of (snd wh)))"

text \<open>
  The setter mutates the instance in place, so an exception leaves the assignments
  made before it. The model returns the exception, if any, together with the
  attributes as they are when the setter is left.
\<close>

definition content_setter :: "env \<Rightarrow> PageInfo \<Rightarrow> bytes \<Rightarrow> error option \<times> PageInfo" where
  "content_setter e self v =
     (case magic_from_buffer e v of
        Inl ex \<Rightarrow> (Some ex, self)
      | Inr filetype \<Rightarrow>
          (let self1 = self\<lparr>suffix := derive_suffix e filetype\<rparr> in
           if suffix self1 \<notin> set (IMAGE_FORMAT e)
           then (Some (AssertionError (''Unsupported image format: '' @ suffix self1)), self1)
           else (case imagesize_get e v of
                   Inl ex \<Rightarrow> (Some ex, self1)
                 | Inr wh \<Rightarrow>
                     (let (width, height) = checked_dims wh in
                      (None, self1\<lparr>image_width := width,
                                   image_height := height,
                                   image_size := int (length v),
                                   content := Some v\<rparr>)))))"

text \<open>
  \<^verbatim>\<open>PageInfo.__init__\<close>: \<open>base\<close> is the instance as \<^verbatim>\<open>PageModel.__init__(**kwargs)\<close>
  leaves it. When the setter raises, the exception leaves the constructor and the
  caller gets no instance.
\<close>

definition PageInfo_init :: "env \<Rightarrow> PageInfo \<Rightarrow> bytes \<Rightarrow> error + PageInfo" where
  "PageInfo_init e base v =
     (case content_setter e base v of
        (Some ex, _) \<Rightarrow> Inl ex
      | (None, self) \<Rightarrow> Inr self)"

text \<open>
  A caller that catches the exception of a failed assignment keeps the instance.
  \<open>replace_all\<close> is the instance after a sequence of assignments to \<^verbatim>\<open>content\<close>,
  failed ones included.
\<close>

fun replace_all :: "env \<Rightarrow> PageInfo \<Rightarrow> bytes list \<Rightarrow> PageInfo" where
  "replace_all e self [] = self"
| "replace_all e self (v # vs) = replace_all e (snd (content_setter e self v)) vs"

subsection \<open>Loaders and saver\<close>

text \<open>The argument of \<^verbatim>\<open>loads\<close>: a \<^verbatim>\<open>str\<close>, a \<^verbatim>\<open>bytes\<close>, or an object of another type.\<close>

datatype pydata = PyStr string | PyBytes bytes | PyObject

text \<open>
  \<^verbatim>\<open>loads\<close>, with \<^verbatim>\<open>base64.b64decode\<close> as the parameter \<open>b64decode\<close>. The two
  \<^verbatim>\<open>isinstance\<close> tests run one after the other, as in the source: the first rebinds
  \<^verbatim>\<open>data\<close> when it is a \<^verbatim>\<open>str\<close>, the second looks at \<^verbatim>\<open>data\<close> as it is then. The
  message of the \<^verbatim>\<open>ValueError\<close> ends with the repr of the argument, which the model
  leaves out.
\<close>

definition loads :: "env \<Rightarrow> (string \<Rightarrow> error + bytes) \<Rightarrow> PageInfo \<Rightarrow> pydata \<Rightarrow> error + PageInfo" where
  "loads e b64decode base data =
     (case (case data of
              PyStr s \<Rightarrow> (case b64decode s of Inl ex \<Rightarrow> Inl ex | Inr b \<Rightarrow> Inr (PyBytes b))
            | _ \<Rightarrow> Inr data) of
        Inl ex \<Rightarrow> Inl ex
      | Inr data1 \<Rightarrow>
          (case data1 of
             PyBytes b \<Rightarrow> PageInfo_init e base b
           | _ \<Rightarrow> Inl (ValueError ''Expecting Bytes or Base64 input'')))"

text \<open>
  The file system: the regular files and their bytes, and the paths that cannot be
  opened for writing.
\<close>

record filesystem =
  files :: "path \<rightharpoonup> bytes"
  readonly :: "path set"

text \<open>
  The argument of \<^verbatim>\<open>load\<close>: a \<^verbatim>\<open>Path\<close> or a \<^verbatim>\<open>str\<close>, or an object of another
  type. \<^verbatim>\<open>Path(path).open(mode="rb")\<close> raises when there is no such file.
\<close>

datatype pypath = PathLike path | NotPath

definition load :: "env \<Rightarrow> filesystem \<Rightarrow> PageInfo \<Rightarrow> pypath \<Rightarrow> error + PageInfo" where
  "load e fs base p =
     (case p of
        NotPath \<Rightarrow> Inl (ValueError ''Expecting Path object or path string'')
      | PathLike q \<Rightarrow>
          (case files fs q of
             None \<Rightarrow> Inl FileNotFoundError
           | Some b \<Rightarrow> PageInfo_init e base b))"

text \<open>
  \<^verbatim>\<open>save\<close>: opening with mode \<^verbatim>\<open>"wb"\<close> creates or truncates the file before
  \<^verbatim>\<open>self.content\<close> is read; the getter raises when the attribute was never assigned.
\<close>

definition save :: "PageInfo \<Rightarrow> path \<Rightarrow> filesystem \<Rightarrow> error option \<times> filesystem" where
  "save self q fs =
     (if q \<in> readonly fs then (Some OSError, fs)
      else (case content self of
              None \<Rightarrow> (Some AttributeError, fs\<lparr>files := (files fs)(q \<mapsto> [])\<rparr>)
            | Some b \<Rightarrow> (None, fs\<lparr>files := (files fs)(q \<mapsto> b)\<rparr>)))"

subsection \<open>A sample environment\<close>

text \<open>
  A small environment on which the model is evaluated, written after the three
  libraries. libmagic classifies the empty buffer as \<^verbatim>\<open>application/x-empty\<close>, a
  buffer that starts with the PNG signature and the head of the \<^verbatim>\<open>IHDR\<close> chunk
  (sixteen bytes) as \<^verbatim>\<open>image/png\<close>, one that starts with \<^verbatim>\<open>GIF8\<close> as \<^verbatim>\<open>image/gif\<close>,
  printable ASCII as \<^verbatim>\<open>text/plain\<close> and other data as
  \<^verbatim>\<open>application/octet-stream\<close>. \<^verbatim>\<open>mimetypes\<close> maps the last to \<^verbatim>\<open>.bin\<close> and has no
  extension for \<^verbatim>\<open>application/x-empty\<close>. \<^verbatim>\<open>imagesize.get\<close> starts from
  \<^verbatim>\<open>width = height = -1\<close> and returns that pair when no header layout matches; it
  reads a GIF's size from bytes 6 to 9 of a buffer of at least ten bytes (two signed
  little-endian shorts), and a PNG's size from bytes 16 to 23 when the buffer has the
  signature and the \<^verbatim>\<open>IHDR\<close> tag, from bytes 8 to 15 when it has the signature alone.
  The other formats of the libraries are not part of the sample.
\<close>

definition png_signature :: bytes where
  "png_signature = [0x89, 0x50, 0x4E, 0x47, 0x0D, 0x0A, 0x1A, 0x0A]"

definition gif87a :: bytes where
  "gif87a = [0x47, 0x49, 0x46, 0x38, 0x37, 0x61]"

text \<open>The six bytes \<^verbatim>\<open>b'GIF89a'\<close>: a GIF cut off after its signature.\<close>

definition gif89a :: bytes where
  "gif89a = [0x47, 0x49, 0x46, 0x38, 0x39, 0x61]"

definition be32 :: "bytes \<Rightarrow> int" where
  "be32 b = foldl (\<lambda>acc w. acc * 256 + int (unat w)) 0 b"

definition le16s :: "bytes \<Rightarrow> int" where
  "le16s b =
     (let u = foldr (\<lambda>w acc. int (unat w) + 256 * acc) b 0
      in if 32768 \<le> u then u - 65536 else u)"

definition printable :: "byte \<Rightarrow> bool" where
  "printable w = (0x20 \<le> w \<and> w < 0x7F)"

definition sample_magic :: "bytes \<Rightarrow> error + string" where
  "sample_magic b =
     (if b = [] then Inr ''application/x-empty''
      else if take 16 b = png_signature @ [0, 0, 0, 0x0D, 0x49, 0x48, 0x44, 0x52]
        then Inr ''image/png''
      else if take 4 b = [0x47, 0x49, 0x46, 0x38] then Inr ''image/gif''
      else if list_all printable b then Inr ''text/plain''
      else Inr ''application/octet-stream'')"

definition sample_guess_extension :: "string \<Rightarrow> string option" where
  "sample_guess_extension t =
     (if t = ''image/png'' then Some ''.png''
      else if t = ''image/gif'' then Some ''.gif''
      else if t = ''text/plain'' then Some ''.txt''
      else if t = ''application/octet-stream'' then Some ''.bin''
      else None)"

definition sample_imagesize :: "bytes \<Rightarrow> error + (pyval \<times> pyval)" where
  "sample_imagesize b =
     (if 10 \<le> length b \<and> (take 6 b = gif87a \<or> take 6 b = gif89a)
      then Inr (PyInt (le16s (take 2 (drop 6 b))), PyInt (le16s (take 2 (drop 8 b))))
      else if 24 \<le> length b \<and> take 8 b = png_signature \<and>
              take 4 (drop 12 b) = [0x49, 0x48, 0x44, 0x52]
      then Inr (PyInt (be32 (take 4 (drop 16 b))), PyInt (be32 (take 4 (drop 20 b))))
      else if 16 \<le> length b \<and> take 8 b = png_signature
      then Inr (PyInt (be32 (take 4 (drop 8 b))), PyInt (be32 (take 4 (drop 12 b))))
      else Inr (PyInt (- 1), PyInt (- 1)))"

definition sample_env :: env where
  "sample_env = \<lparr>magic_from_buffer = sample_magic,
                 guess_extension = sample_guess_extension,
                 imagesize_get = sample_imagesize,
                 IMAGE_FORMAT = [''.bmp'', ''.gif'', ''.jpeg'', ''.jpg'', ''.png'',
                                 ''.tif'', ''.tiff'', ''.webp'']\<rparr>"

text \<open>The first 24 bytes of a PNG of 10 by 20 pixels, a text buffer, and a bare instance.\<close>

definition png_10x20 :: bytes where
  "png_10x20 = png_signature @ [0, 0, 0, 0x0D, 0x49, 0x48, 0x44, 0x52, 0, 0, 0, 0x0A, 0, 0, 0, 0x14]"

definition text_hello :: bytes where
  "text_hello = [0x68, 0x65, 0x6C, 0x6C, 0x6F]"

definition bare :: PageInfo where
  "bare = \<lparr>suffix = [], image_width = 0, image_height = 0, image_size = 0,
           content = None, model_attrs = []\<rparr>"


definition png_page :: PageInfo where
  "png_page = \<lparr>suffix = ''.png'', image_width = 10, image_height = 20, image_size = 24,
               content = Some png_10x20, model_attrs = []\<rparr>"

text \<open>
  An environment whose sniffer raises on the empty buffer and follows the sample
  one elsewhere.
\<close>

definition strict_env :: env where
  "strict_env = sample_env\<lparr>magic_from_buffer :=
     (\<lambda>b. if b = [] then Inl MagicException else sample_magic b)\<rparr>"

text \<open>
  Modelled from the spec: \<^verbatim>\<open>cbz/constants.py\<close>, which defines \<^verbatim>\<open>IMAGE_FORMAT\<close>, is
  not among the sources. The specification says of the fallback extension that the
  source "asserts \<^verbatim>\<open>.bin\<close> is not in the allow-list"; the predicate says so of the
  allow-list of an environment.
\<close>

definition bin_not_allowed :: "env \<Rightarrow> bool" where
  "bin_not_allowed e = (''.bin'' \<notin> set (IMAGE_FORMAT e))"

text \<open>
  Two environments that are not the libraries' behaviour: their sniffer takes every
  buffer, the empty one included, for a PNG. In the first the probe returns as in
  the sample, in the second it raises. They exercise the setter on the empty buffer
  past the allow-list.
\<close>

definition lenient_env :: env where
  "lenient_env = sample_env\<lparr>magic_from_buffer := (\<lambda>b. Inr ''image/png'')\<rparr>"

definition raising_probe_env :: env where
  "raising_probe_env = lenient_env\<lparr>imagesize_get := (\<lambda>b. Inl ImagesizeError)\<rparr>"

text \<open>
  A fourth environment, whose probe returns a value that is not an \<^verbatim>\<open>int\<close> for the
  width, as \<^verbatim>\<open>imagesize\<close> can for formats that store sizes as fractions.
\<close>

definition float_env :: env where
  "float_env = sample_env\<lparr>imagesize_get := (\<lambda>b. Inr (PyOther, PyInt 20))\<rparr>"

text \<open>The instance \<open>png_page\<close> after a failed assignment of \<open>text_hello\<close>.\<close>

definition stale_page :: PageInfo where
  "stale_page = png_page\<lparr>suffix := ''.txt''\<rparr>"

definition empty_fs :: filesystem where
  "empty_fs = \<lparr>files = Map.empty, readonly = {}\<rparr>"

section \<open>Evaluation on the sample environment\<close>

lemmas sample_defs =
  sample_env_def sample_magic_def sample_guess_extension_def sample_imagesize_def
  png_signature_def gif87a_def gif89a_def png_10x20_def text_hello_def be32_def
  printable_def

lemmas setter_defs = content_setter_def derive_suffix_def checked_dims_def

lemma init_png_10x20: "PageInfo_init sample_env bare png_10x20 = Inr png_page"
  by (simp add: PageInfo_init_def setter_defs sample_defs bare_def png_page_def)

lemma setter_text_hello:
  "content_setter sample_env self text_hello =
     (Some (AssertionError ''Unsupported image format: .txt''), self\<lparr>suffix := ''.txt''\<rparr>)"
  by (simp add: setter_defs sample_defs)

lemma setter_gif89a:
  "content_setter sample_env self gif89a =
     (None, self\<lparr>suffix := ''.gif'', image_width := - 1, image_height := - 1,
                 image_size := 6, content := Some gif89a\<rparr>)"
  by (simp add: setter_defs sample_defs)

lemma setter_png_signature:
  "content_setter sample_env self png_signature =
     (Some (AssertionError ''Unsupported image format: .bin''), self\<lparr>suffix := ''.bin''\<rparr>)"
  by (simp add: setter_defs sample_defs)

lemma setter_empty:
  "content_setter sample_env self [] =
     (Some (AssertionError ''Unsupported image format: .bin''), self\<lparr>suffix := ''.bin''\<rparr>)"
  by (simp add: setter_defs sample_defs)

section \<open>The setter, case by case\<close>

lemma setter_sniff_raises:
  "magic_from_buffer e v = Inl ex \<Longrightarrow> content_setter e self v = (Some ex, self)"
  by (simp add: content_setter_def)

lemma setter_rejected:
  "magic_from_buffer e v = Inr t \<Longrightarrow> derive_suffix e t \<notin> set (IMAGE_FORMAT e) \<Longrightarrow>
   content_setter e self v =
     (Some (AssertionError (''Unsupported image format: '' @ derive_suffix e t)),
      self\<lparr>suffix := derive_suffix e t\<rparr>)"
  by (simp add: content_setter_def)

lemma setter_probe_raises:
  "magic_from_buffer e v = Inr t \<Longrightarrow> derive_suffix e t \<in> set (IMAGE_FORMAT e) \<Longrightarrow>
   imagesize_get e v = Inl ex \<Longrightarrow>
   content_setter e self v = (Some ex, self\<lparr>suffix := derive_suffix e t\<rparr>)"
  by (simp add: content_setter_def)

lemma setter_commits:
  "magic_from_buffer e v = Inr t \<Longrightarrow> derive_suffix e t \<in> set (IMAGE_FORMAT e) \<Longrightarrow>
   imagesize_get e v = Inr wh \<Longrightarrow>
   content_setter e self v =
     (None, self\<lparr>suffix := derive_suffix e t,
                 image_width := fst (checked_dims wh),
                 image_height := snd (checked_dims wh),
                 image_size := int (length v),
                 content := Some v\<rparr>)"
  by (simp add: content_setter_def split: prod.splits)

text \<open>The four ways through the setter, as one case distinction.\<close>

lemma setter_cases:
  obtains
    (sniff) ex where "magic_from_buffer e v = Inl ex"
      "content_setter e self v = (Some ex, self)"
  | (rejected) t where "magic_from_buffer e v = Inr t"
      "derive_suffix e t \<notin> set (IMAGE_FORMAT e)"
      "content_setter e self v =
         (Some (AssertionError (''Unsupported image format: '' @ derive_suffix e t)),
          self\<lparr>suffix := derive_suffix e t\<rparr>)"
  | (probe) t ex where "magic_from_buffer e v = Inr t"
      "derive_suffix e t \<in> set (IMAGE_FORMAT e)" "imagesize_get e v = Inl ex"
      "content_setter e self v = (Some ex, self\<lparr>suffix := derive_suffix e t\<rparr>)"
  | (commit) t wh where "magic_from_buffer e v = Inr t"
      "derive_suffix e t \<in> set (IMAGE_FORMAT e)" "imagesize_get e v = Inr wh"
      "content_setter e self v =
         (None, self\<lparr>suffix := derive_suffix e t,
                     image_width := fst (checked_dims wh),
                     image_height := snd (checked_dims wh),
                     image_size := int (length v),
                     content := Some v\<rparr>)"
proof (cases "magic_from_buffer e v")
  case (Inl ex)
  then show ?thesis using sniff setter_sniff_raises by blast
next
  case (Inr t)
  show ?thesis
  proof (cases "derive_suffix e t \<in> set (IMAGE_FORMAT e)")
    case False
    then show ?thesis using rejected Inr setter_rejected by blast
  next
    case True
    show ?thesis
    proof (cases "imagesize_get e v")
      case (Inl ex)
      then show ?thesis using probe Inr True setter_probe_raises by blast
    next
      case (Inr wh)
      then show ?thesis using commit \<open>magic_from_buffer e v = Inr t\<close> True setter_commits by blast
    qed
  qed
qed

section \<open>Size and content stay in step\<close>

lemma init_in_sync:
  assumes "PageInfo_init e base v = Inr self"
  shows "content self = Some v \<and> image_size self = int (length v)"
proof (cases e v base rule: setter_cases)
  case (sniff ex)
  with assms show ?thesis by (simp add: PageInfo_init_def)
next
  case (rejected t)
  with assms show ?thesis by (simp add: PageInfo_init_def)
next
  case (probe t ex)
  with assms show ?thesis by (simp add: PageInfo_init_def)
next
  case (commit t wh)
  with assms show ?thesis by (auto simp add: PageInfo_init_def)
qed

lemma setter_keeps_sync:
  assumes "content self = Some c \<and> image_size self = int (length c)"
  shows "\<exists>c'. content (snd (content_setter e self v)) = Some c' \<and>
              image_size (snd (content_setter e self v)) = int (length c')"
proof (cases e v self rule: setter_cases)
  case (sniff ex)
  with assms show ?thesis by simp
next
  case (rejected t)
  with assms show ?thesis by simp
next
  case (probe t ex)
  with assms show ?thesis by simp
next
  case (commit t wh)
  then show ?thesis by simp
qed

lemma replace_all_keeps_sync:
  "content self = Some c \<and> image_size self = int (length c) \<Longrightarrow>
   \<exists>c'. content (replace_all e self vs) = Some c' \<and>
        image_size (replace_all e self vs) = int (length c')"
proof (induction vs arbitrary: self c)
  case Nil
  then show ?case by simp
next
  case (Cons v vs)
  from setter_keeps_sync [OF Cons.prems, of e v]
  obtain c' where "content (snd (content_setter e self v)) = Some c' \<and>
      image_size (snd (content_setter e self v)) = int (length c')" by blast
  from Cons.IH [OF this] show ?case by simp
qed

section \<open>What holds after a successful assignment\<close>

lemma committed_suffix_allowed:
  assumes "content_setter e self v = (None, self')"
  shows "suffix self' \<in> set (IMAGE_FORMAT e)"
proof (cases e v self rule: setter_cases)
  case (sniff ex)
  with assms show ?thesis by simp
next
  case (rejected t)
  with assms show ?thesis by simp
next
  case (probe t ex)
  with assms show ?thesis by simp
next
  case (commit t wh)
  with assms show ?thesis by auto
qed

lemma init_suffix_allowed:
  "PageInfo_init e base v = Inr self \<Longrightarrow> suffix self \<in> set (IMAGE_FORMAT e)"
  using committed_suffix_allowed [of e base v self]
  by (auto simp add: PageInfo_init_def split: prod.splits option.splits)

text \<open>
  Saving an instance as the constructor left it and loading the file again gives the
  same content and the same derived attributes.
\<close>

lemma save_then_load:
  assumes "PageInfo_init e base v = Inr self" and "save self q fs = (None, fs')"
  shows "\<exists>self'. load e fs' base' (PathLike q) = Inr self' \<and>
           content self' = content self \<and> suffix self' = suffix self \<and>
           image_width self' = image_width self \<and> image_height self' = image_height self \<and>
           image_size self' = image_size self"
proof -
  from init_in_sync [OF assms(1)] have c: "content self = Some v" by simp
  with assms(2) have "files fs' q = Some v"
    by (auto simp add: save_def split: if_splits)
  then have l: "load e fs' base' (PathLike q) = PageInfo_init e base' v"
    by (simp add: load_def)
  show ?thesis
  proof (cases e v base rule: setter_cases)
    case (sniff ex)
    with assms(1) show ?thesis by (simp add: PageInfo_init_def)
  next
    case (rejected t)
    with assms(1) show ?thesis by (simp add: PageInfo_init_def)
  next
    case (probe t ex)
    with assms(1) show ?thesis by (simp add: PageInfo_init_def)
  next
    case (commit t wh)
    with assms(1) l setter_commits [of e v t wh base'] show ?thesis
      by (auto simp add: PageInfo_init_def)
  qed
qed

section \<open>Claims\<close>

text \<open>
  C9. A failed assignment to \<^verbatim>\<open>content\<close> (the sniffer raises, the assertion fails or
  the probe raises) leaves \<open>content\<close>, \<open>image_width\<close>, \<open>image_height\<close> and
  \<open>image_size\<close> as they were, since the setter assigns them after the last call that
  can raise. Of the attributes only \<open>suffix\<close> can differ, and then it holds the
  extension derived from the new bytes.
\<close>

theorem failed_setter_frame:
  assumes "content_setter e self v = (Some ex, self')"
  shows "content self' = content self \<and> image_width self' = image_width self \<and>
         image_height self' = image_height self \<and> image_size self' = image_size self \<and>
         model_attrs self' = model_attrs self \<and>
         (suffix self' = suffix self \<or>
          (\<exists>t. magic_from_buffer e v = Inr t \<and> suffix self' = derive_suffix e t))"
proof (cases e v self rule: setter_cases)
  case (sniff ex')
  with assms show ?thesis by simp
next
  case (rejected t)
  with assms show ?thesis by auto
next
  case (probe t ex')
  with assms show ?thesis by auto
next
  case (commit t wh)
  with assms show ?thesis by simp
qed

theorem failed_setter_frame_witness:
  "content_setter sample_env png_page text_hello =
     (Some (AssertionError ''Unsupported image format: .txt''), png_page\<lparr>suffix := ''.txt''\<rparr>) \<and>
   content (png_page\<lparr>suffix := ''.txt''\<rparr>) = content png_page \<and>
   image_width (png_page\<lparr>suffix := ''.txt''\<rparr>) = image_width png_page \<and>
   image_height (png_page\<lparr>suffix := ''.txt''\<rparr>) = image_height png_page \<and>
   image_size (png_page\<lparr>suffix := ''.txt''\<rparr>) = image_size png_page"
  using failed_setter_frame [OF setter_text_hello [of png_page]] setter_text_hello [of png_page]
  by simp

text \<open>
  C6. After construction and after every later assignment to \<^verbatim>\<open>content\<close>, failed or
  not, \<open>image_size\<close> is the number of bytes of \<open>content\<close>.
\<close>

theorem image_size_is_length:
  assumes "PageInfo_init e base v = Inr self"
  shows "\<exists>c. content (replace_all e self vs) = Some c \<and>
             image_size (replace_all e self vs) = int (length c)"
  using init_in_sync [OF assms] replace_all_keeps_sync by blast

theorem image_size_is_length_witness:
  "PageInfo_init sample_env bare png_10x20 = Inr png_page \<and>
   (\<exists>c. content (replace_all sample_env png_page [text_hello, gif89a]) = Some c \<and>
        image_size (replace_all sample_env png_page [text_hello, gif89a]) = int (length c))"
  using image_size_is_length [OF init_png_10x20, of "[text_hello, gif89a]"] init_png_10x20
  by simp

text \<open>
  C8. Constructing twice from the same bytes, whatever the keyword arguments, fails
  both times with the same exception or gives two instances with the same suffix,
  width, height, size and content.
\<close>

theorem init_deterministic:
  "(\<exists>ex. PageInfo_init e base1 v = Inl ex \<and> PageInfo_init e base2 v = Inl ex) \<or>
   (\<exists>s1 s2. PageInfo_init e base1 v = Inr s1 \<and> PageInfo_init e base2 v = Inr s2 \<and>
      suffix s1 = suffix s2 \<and> image_width s1 = image_width s2 \<and>
      image_height s1 = image_height s2 \<and> image_size s1 = image_size s2 \<and>
      content s1 = content s2)"
proof (cases e v base1 rule: setter_cases)
  case (sniff ex)
  then show ?thesis
    using setter_sniff_raises [of e v ex base2] by (simp add: PageInfo_init_def)
next
  case (rejected t)
  then show ?thesis
    using setter_rejected [of e v t base2] by (simp add: PageInfo_init_def)
next
  case (probe t ex)
  then show ?thesis
    using setter_probe_raises [of e v t ex base2] by (simp add: PageInfo_init_def)
next
  case (commit t wh)
  then show ?thesis
    using setter_commits [of e v t wh base2] by (simp add: PageInfo_init_def)
qed

text \<open>
  C10. \<^verbatim>\<open>loads\<close> of a \<^verbatim>\<open>bytes\<close> value is the constructor applied to these bytes,
  with no decoding; \<^verbatim>\<open>loads\<close> of a \<^verbatim>\<open>str\<close> is the constructor applied to its base64
  decoding, or the exception of the decoder. Neither result comes from the
  \<^verbatim>\<open>ValueError\<close> branch, which an argument of another type takes.
\<close>

theorem loads_str_or_bytes:
  "loads e b64decode base (PyBytes b) = PageInfo_init e base b \<and>
   loads e b64decode base (PyStr s) =
     (case b64decode s of Inl ex \<Rightarrow> Inl ex | Inr d \<Rightarrow> PageInfo_init e base d) \<and>
   loads e b64decode base PyObject = Inl (ValueError ''Expecting Bytes or Base64 input'')"
  by (simp add: loads_def split: sum.splits)

text \<open>
  C5. When the sniffed type has no extension, the suffix becomes \<^verbatim>\<open>.bin\<close>; with
  \<^verbatim>\<open>.bin\<close> outside the allow-list the assertion fails, so construction fails and an
  assignment is rejected.
\<close>

theorem unmapped_type_rejected:
  assumes "magic_from_buffer e v = Inr t" and "guess_extension e t = None"
    and "bin_not_allowed e"
  shows "derive_suffix e t = ''.bin'' \<and>
         content_setter e self v =
           (Some (AssertionError ''Unsupported image format: .bin''), self\<lparr>suffix := ''.bin''\<rparr>) \<and>
         PageInfo_init e self v = Inl (AssertionError ''Unsupported image format: .bin'')"
proof -
  from assms(2) have d: "derive_suffix e t = ''.bin''" by (simp add: derive_suffix_def)
  with assms(3) have "derive_suffix e t \<notin> set (IMAGE_FORMAT e)"
    by (simp add: bin_not_allowed_def)
  from setter_rejected [OF assms(1) this, of self] d show ?thesis
    by (simp add: PageInfo_init_def)
qed

theorem unmapped_type_rejected_witness:
  "magic_from_buffer sample_env [] = Inr ''application/x-empty'' \<and>
   guess_extension sample_env ''application/x-empty'' = None \<and>
   bin_not_allowed sample_env \<and>
   derive_suffix sample_env ''application/x-empty'' = ''.bin'' \<and>
   PageInfo_init sample_env bare [] = Inl (AssertionError ''Unsupported image format: .bin'')"
proof -
  have 1: "magic_from_buffer sample_env [] = Inr ''application/x-empty''"
    by (simp add: sample_defs)
  have 2: "guess_extension sample_env ''application/x-empty'' = None"
    by (simp add: sample_defs)
  have 3: "bin_not_allowed sample_env"
    by (simp add: bin_not_allowed_def sample_defs)
  from unmapped_type_rejected [OF 1 2 3, of bare] 1 2 3 show ?thesis by simp
qed

text \<open>
  C2, as the code has it. When the bytes pass the sniffer and the allow-list and the
  probe returns, construction and replacement succeed; the stored width and height
  are the pair the probe returned when both are \<^verbatim>\<open>int\<close>, whatever their sign, and
  \<open>0\<close> and \<open>0\<close> when either is not.
\<close>

theorem stored_dimensions:
  assumes "magic_from_buffer e v = Inr t" and "derive_suffix e t \<in> set (IMAGE_FORMAT e)"
    and "imagesize_get e v = Inr (pw, ph)"
  shows "\<exists>self'. content_setter e self v = (None, self') \<and>
           PageInfo_init e self v = Inr self' \<and>
           image_width self' = (case (pw, ph) of (PyInt w, PyInt h) \<Rightarrow> w | _ \<Rightarrow> 0) \<and>
           image_height self' = (case (pw, ph) of (PyInt w, PyInt h) \<Rightarrow> h | _ \<Rightarrow> 0)"
  using setter_commits [OF assms, of self]
  by (simp add: PageInfo_init_def checked_dims_def split: pyval.splits)

theorem stored_dimensions_witness:
  "magic_from_buffer float_env png_10x20 = Inr ''image/png'' \<and>
   derive_suffix float_env ''image/png'' \<in> set (IMAGE_FORMAT float_env) \<and>
   imagesize_get float_env png_10x20 = Inr (PyOther, PyInt 20) \<and>
   (\<exists>self'. PageInfo_init float_env bare png_10x20 = Inr self' \<and>
      image_width self' = 0 \<and> image_height self' = 0) \<and>
   imagesize_get sample_env png_10x20 = Inr (PyInt 10, PyInt 20) \<and>
   (\<exists>self'. PageInfo_init sample_env bare png_10x20 = Inr self' \<and>
      image_width self' = 10 \<and> image_height self' = 20)"
proof -
  have 1: "magic_from_buffer float_env png_10x20 = Inr ''image/png''"
    by (simp add: float_env_def sample_defs)
  have 2: "derive_suffix float_env ''image/png'' \<in> set (IMAGE_FORMAT float_env)"
    by (simp add: float_env_def derive_suffix_def sample_defs)
  have 3: "imagesize_get float_env png_10x20 = Inr (PyOther, PyInt 20)"
    by (simp add: float_env_def)
  have 4: "magic_from_buffer sample_env png_10x20 = Inr ''image/png''"
    by (simp add: sample_defs)
  have 5: "derive_suffix sample_env ''image/png'' \<in> set (IMAGE_FORMAT sample_env)"
    by (simp add: derive_suffix_def sample_defs)
  have 6: "imagesize_get sample_env png_10x20 = Inr (PyInt 10, PyInt 20)"
    by (simp add: sample_defs)
  from stored_dimensions [OF 1 2 3, of bare] stored_dimensions [OF 4 5 6, of bare] 1 2 3 6
  show ?thesis by auto
qed

text \<open>
  C2 as stated fails on \<^verbatim>\<open>b'GIF89a'\<close>, a GIF cut off after its signature: the six
  bytes are sniffed as \<^verbatim>\<open>image/gif\<close> and pass the allow-list, the probe needs ten
  bytes for the GIF layout and returns its initial \<open>-1\<close> twice, both are \<^verbatim>\<open>int\<close>, and
  both are stored.
\<close>

theorem negative_dimensions_stored:
  "magic_from_buffer sample_env gif89a = Inr ''image/gif'' \<and>
   imagesize_get sample_env gif89a = Inr (PyInt (- 1), PyInt (- 1)) \<and>
   PageInfo_init sample_env bare gif89a =
     Inr \<lparr>suffix = ''.gif'', image_width = - 1, image_height = - 1, image_size = 6,
          content = Some gif89a, model_attrs = []\<rparr>"
  by (simp add: PageInfo_init_def setter_gif89a bare_def) (simp add: sample_defs)

text \<open>
  C4, as the code has it. The setter has no case for the empty buffer and no failure
  of its own kind for bytes it cannot classify; on the empty buffer it takes one of
  its four paths, as on any other. When the sniffer raises, the setter fails with
  the sniffer's exception and the instance is as before: no extension was looked up.
  When the sniffer returns a type, the type is mapped to an extension and the
  extension is stored; outside the allow-list it fails with the \<^verbatim>\<open>AssertionError\<close> of
  every allow-list rejection. Inside the allow-list, the setter fails with the
  exception of the probe when the probe raises, and accepts the empty content with
  size \<open>0\<close> when the probe returns. The constructor fails on the first three paths
  and returns the instance on the fourth.
\<close>

theorem empty_input:
  "(magic_from_buffer e [] = Inl ex \<longrightarrow>
      content_setter e self [] = (Some ex, self) \<and> PageInfo_init e self [] = Inl ex) \<and>
   (magic_from_buffer e [] = Inr t \<and> derive_suffix e t \<notin> set (IMAGE_FORMAT e) \<longrightarrow>
      content_setter e self [] =
        (Some (AssertionError (''Unsupported image format: '' @ derive_suffix e t)),
         self\<lparr>suffix := derive_suffix e t\<rparr>) \<and>
      PageInfo_init e self [] =
        Inl (AssertionError (''Unsupported image format: '' @ derive_suffix e t))) \<and>
   (magic_from_buffer e [] = Inr t \<and> derive_suffix e t \<in> set (IMAGE_FORMAT e) \<and>
    imagesize_get e [] = Inl ex \<longrightarrow>
      content_setter e self [] = (Some ex, self\<lparr>suffix := derive_suffix e t\<rparr>) \<and>
      PageInfo_init e self [] = Inl ex) \<and>
   (magic_from_buffer e [] = Inr t \<and> derive_suffix e t \<in> set (IMAGE_FORMAT e) \<and>
    imagesize_get e [] = Inr wh \<longrightarrow>
      content_setter e self [] =
        (None, self\<lparr>suffix := derive_suffix e t,
                    image_width := fst (checked_dims wh),
                    image_height := snd (checked_dims wh),
                    image_size := 0,
                    content := Some []\<rparr>) \<and>
      PageInfo_init e self [] =
        Inr (self\<lparr>suffix := derive_suffix e t,
                  image_width := fst (checked_dims wh),
                  image_height := snd (checked_dims wh),
                  image_size := 0,
                  content := Some []\<rparr>))"
proof (intro conjI impI)
  assume "magic_from_buffer e [] = Inl ex"
  from setter_sniff_raises [OF this, of self]
  show "content_setter e self [] = (Some ex, self)" "PageInfo_init e self [] = Inl ex"
    by (simp_all add: PageInfo_init_def)
next
  assume a: "magic_from_buffer e [] = Inr t \<and> derive_suffix e t \<notin> set (IMAGE_FORMAT e)"
  then have r: "content_setter e self [] =
      (Some (AssertionError (''Unsupported image format: '' @ derive_suffix e t)),
       self\<lparr>suffix := derive_suffix e t\<rparr>)"
    using setter_rejected [of e "[]" t self] by simp
  then show "content_setter e self [] =
      (Some (AssertionError (''Unsupported image format: '' @ derive_suffix e t)),
       self\<lparr>suffix := derive_suffix e t\<rparr>)" .
  from r show "PageInfo_init e self [] =
      Inl (AssertionError (''Unsupported image format: '' @ derive_suffix e t))"
    by (simp add: PageInfo_init_def)
next
  assume a: "magic_from_buffer e [] = Inr t \<and> derive_suffix e t \<in> set (IMAGE_FORMAT e) \<and>
    imagesize_get e [] = Inl ex"
  then have r: "content_setter e self [] = (Some ex, self\<lparr>suffix := derive_suffix e t\<rparr>)"
    using setter_probe_raises [of e "[]" t ex self] by simp
  then show "content_setter e self [] = (Some ex, self\<lparr>suffix := derive_suffix e t\<rparr>)" .
  from r show "PageInfo_init e self [] = Inl ex"
    by (simp add: PageInfo_init_def)
next
  assume a: "magic_from_buffer e [] = Inr t \<and> derive_suffix e t \<in> set (IMAGE_FORMAT e) \<and>
    imagesize_get e [] = Inr wh"
  then have r: "content_setter e self [] =
      (None, self\<lparr>suffix := derive_suffix e t,
                  image_width := fst (checked_dims wh),
                  image_height := snd (checked_dims wh),
                  image_size := 0,
                  content := Some []\<rparr>)"
    using setter_commits [of e "[]" t wh self] by simp
  then show "content_setter e self [] =
      (None, self\<lparr>suffix := derive_suffix e t,
                  image_width := fst (checked_dims wh),
                  image_height := snd (checked_dims wh),
                  image_size := 0,
                  content := Some []\<rparr>)" .
  from r show "PageInfo_init e self [] =
      Inr (self\<lparr>suffix := derive_suffix e t,
                image_width := fst (checked_dims wh),
                image_height := snd (checked_dims wh),
                image_size := 0,
                content := Some []\<rparr>)"
    by (simp add: PageInfo_init_def)
qed

text \<open>
  The four paths, each at an environment that takes it: the sniffer raises; the
  sample environment, as the libraries answer; the probe raises; the probe returns.
\<close>

theorem empty_input_witness:
  "magic_from_buffer strict_env [] = Inl MagicException \<and>
   content_setter strict_env png_page [] = (Some MagicException, png_page) \<and>
   magic_from_buffer sample_env [] = Inr ''application/x-empty'' \<and>
   derive_suffix sample_env ''application/x-empty'' = ''.bin'' \<and>
   ''.bin'' \<notin> set (IMAGE_FORMAT sample_env) \<and>
   content_setter sample_env png_page [] =
     (Some (AssertionError ''Unsupported image format: .bin''), png_page\<lparr>suffix := ''.bin''\<rparr>) \<and>
   PageInfo_init sample_env bare [] = Inl (AssertionError ''Unsupported image format: .bin'') \<and>
   magic_from_buffer raising_probe_env [] = Inr ''image/png'' \<and>
   derive_suffix raising_probe_env ''image/png'' \<in> set (IMAGE_FORMAT raising_probe_env) \<and>
   imagesize_get raising_probe_env [] = Inl ImagesizeError \<and>
   content_setter raising_probe_env bare [] = (Some ImagesizeError, bare\<lparr>suffix := ''.png''\<rparr>) \<and>
   magic_from_buffer lenient_env [] = Inr ''image/png'' \<and>
   derive_suffix lenient_env ''image/png'' \<in> set (IMAGE_FORMAT lenient_env) \<and>
   imagesize_get lenient_env [] = Inr (PyInt (- 1), PyInt (- 1)) \<and>
   PageInfo_init lenient_env bare [] =
     Inr (bare\<lparr>suffix := ''.png'', image_width := - 1, image_height := - 1,
               image_size := 0, content := Some []\<rparr>)"
proof -
  have 1: "magic_from_buffer strict_env [] = Inl MagicException"
    by (simp add: strict_env_def)
  have 2: "magic_from_buffer sample_env [] = Inr ''application/x-empty''"
    by (simp add: sample_defs)
  have 3: "derive_suffix sample_env ''application/x-empty'' = ''.bin''"
    by (simp add: derive_suffix_def sample_defs)
  have 4: "''.bin'' \<notin> set (IMAGE_FORMAT sample_env)"
    by (simp add: sample_defs)
  have 5: "magic_from_buffer raising_probe_env [] = Inr ''image/png''"
    by (simp add: raising_probe_env_def lenient_env_def)
  have 6: "derive_suffix raising_probe_env ''image/png'' = ''.png''"
    by (simp add: raising_probe_env_def lenient_env_def derive_suffix_def sample_defs)
  have 7: "''.png'' \<in> set (IMAGE_FORMAT raising_probe_env)"
    by (simp add: raising_probe_env_def lenient_env_def sample_defs)
  have 8: "imagesize_get raising_probe_env [] = Inl ImagesizeError"
    by (simp add: raising_probe_env_def)
  have 9: "magic_from_buffer lenient_env [] = Inr ''image/png''"
    by (simp add: lenient_env_def)
  have 10: "derive_suffix lenient_env ''image/png'' = ''.png''"
    by (simp add: lenient_env_def derive_suffix_def sample_defs)
  have 11: "''.png'' \<in> set (IMAGE_FORMAT lenient_env)"
    by (simp add: lenient_env_def sample_defs)
  have 12: "imagesize_get lenient_env [] = Inr (PyInt (- 1), PyInt (- 1))"
    by (simp add: lenient_env_def sample_defs)
  from empty_input [of strict_env MagicException png_page]
    empty_input [of sample_env _ png_page "''application/x-empty''"]
    empty_input [of sample_env _ bare "''application/x-empty''"]
    empty_input [of raising_probe_env ImagesizeError bare "''image/png''"]
    empty_input [of lenient_env _ bare "''image/png''" "(PyInt (- 1), PyInt (- 1))"]
    1 2 3 4 5 6 7 8 9 10 11 12
  show ?thesis by (simp add: checked_dims_def)
qed

text \<open>
  C4 as stated fails: the empty buffer is sniffed as \<^verbatim>\<open>application/x-empty\<close>, goes
  through the extension mapping, and is rejected by the allow-list assertion with the
  fallback extension, as a text buffer is with its own.
\<close>

theorem empty_input_reaches_mapping:
  "magic_from_buffer sample_env [] = Inr ''application/x-empty'' \<and>
   PageInfo_init sample_env bare [] = Inl (AssertionError ''Unsupported image format: .bin'') \<and>
   PageInfo_init sample_env bare text_hello = Inl (AssertionError ''Unsupported image format: .txt'')"
  by (simp add: PageInfo_init_def setter_empty setter_text_hello) (simp add: sample_defs)

text \<open>
  C1 on the code. \<open>png_page\<close> is the instance constructed from a PNG buffer. Assigning
  a text buffer to its \<^verbatim>\<open>content\<close> raises the \<^verbatim>\<open>AssertionError\<close>, and the instance
  is left with the suffix of the rejected bytes: \<^verbatim>\<open>.txt\<close> in place of \<^verbatim>\<open>.png\<close>.
\<close>

theorem failed_replace_overwrites_suffix:
  "PageInfo_init sample_env bare png_10x20 = Inr png_page \<and>
   suffix png_page = ''.png'' \<and>
   content_setter sample_env png_page text_hello =
     (Some (AssertionError ''Unsupported image format: .txt''), stale_page) \<and>
   suffix stale_page = ''.txt'' \<and>
   content stale_page = Some png_10x20"
  by (simp add: init_png_10x20 setter_text_hello stale_page_def) (simp add: png_page_def)

text \<open>
  C3 on the code. After construction from a PNG buffer and one failed assignment of
  a text buffer, kept by a caller that catches the exception, the stored suffix is
  \<^verbatim>\<open>.txt\<close>, which is not in the allow-list.
\<close>

theorem suffix_outside_allow_list:
  "PageInfo_init sample_env bare png_10x20 = Inr png_page \<and>
   suffix (replace_all sample_env png_page [text_hello]) = ''.txt'' \<and>
   ''.txt'' \<notin> set (IMAGE_FORMAT sample_env)"
  by (simp add: init_png_10x20 setter_text_hello) (simp add: sample_env_def)

text \<open>
  C7 on the code. The instance left by the failed assignment is saved and the file is
  loaded: the loaded instance has the suffix derived from the bytes, \<^verbatim>\<open>.png\<close>, and
  the saved one had \<^verbatim>\<open>.txt\<close>.
\<close>

theorem reload_of_stale_page_differs:
  "replace_all sample_env png_page [text_hello] = stale_page \<and>
   save stale_page ''page'' empty_fs =
     (None, empty_fs\<lparr>files := [''page'' \<mapsto> png_10x20]\<rparr>) \<and>
   load sample_env (empty_fs\<lparr>files := [''page'' \<mapsto> png_10x20]\<rparr>) bare (PathLike ''page'') =
     Inr png_page \<and>
   content png_page = content stale_page \<and>
   suffix png_page = ''.png'' \<and> suffix stale_page = ''.txt''"
  by (simp add: setter_text_hello stale_page_def save_def load_def init_png_10x20)
     (simp add: png_page_def empty_fs_def)

end
